theory Spec2Isabelle
  imports Main
begin

section \<open>The issue reporter: a shallow embedding of main.go\<close>

text \<open>
  The program is one Go file: three helper functions (\<open>extractProjectPath\<close>,
  \<open>readGitLabTokenFromFile\<close>, \<open>resolveHome\<close>) and \<open>main\<close>. Go strings are byte
  strings, modelled as \<open>string\<close> (lists of 8-bit characters). Everything the program does to
  the outside world (logging, the file system, the GitLab client, the CSV writer) is recorded
  as an event of a trace; what the outside world answers is read from an environment record.
\<close>

subsection \<open>The functions of package strings that the program calls\<close>

text \<open>\<open>strings.HasPrefix(s, prefix)\<close>.\<close>

definition HasPrefix :: "string \<Rightarrow> string \<Rightarrow> bool" where
  "HasPrefix s pre = (take (length pre) s = pre)"

text \<open>\<open>strings.TrimPrefix(s, prefix)\<close>: \<open>s\<close> without the leading \<open>prefix\<close>, or \<open>s\<close> itself.\<close>

definition TrimPrefix :: "string \<Rightarrow> string \<Rightarrow> string" where
  "TrimPrefix s pre = (if HasPrefix s pre then drop (length pre) s else s)"

text \<open>
  \<open>strings.Split(s, sep)\<close> for a separator of one byte (the program's only separator is
  \<open>"/"\<close>): the pieces between the separators, empty pieces included, so the result has one
  element more than \<open>s\<close> has separators.
\<close>

fun Split :: "string \<Rightarrow> char \<Rightarrow> string list" where
  "Split [] sep = [[]]"
| "Split (c # s) sep =
     (if c = sep then [] # Split s sep
      else (case Split s sep of
              [] \<Rightarrow> [[c]]
            | seg # segs \<Rightarrow> (c # seg) # segs))"

text \<open>\<open>strings.Join(elems, sep)\<close>.\<close>

fun Join :: "string list \<Rightarrow> string \<Rightarrow> string" where
  "Join [] sep = []"
| "Join [e] sep = e"
| "Join (e # es) sep = e @ sep @ Join es sep"

text \<open>
  \<open>strings.Replace(s, old, new, 1)\<close>: the first occurrence of \<open>old\<close> in \<open>s\<close> replaced by
  \<open>new\<close>; \<open>s\<close> itself when \<open>old\<close> does not occur. (An empty \<open>old\<close> matches at the start.)
\<close>

fun replaceFirst :: "string \<Rightarrow> string \<Rightarrow> string \<Rightarrow> string" where
  "replaceFirst [] old new = (if old = [] then new else [])"
| "replaceFirst (c # s) old new =
     (if HasPrefix (c # s) old then new @ drop (length old) (c # s)
      else c # replaceFirst s old new)"

definition Replace1 :: "string \<Rightarrow> string \<Rightarrow> string \<Rightarrow> string" where
  "Replace1 s old new = (if old = new then s else replaceFirst s old new)"

text \<open>
  \<open>strings.TrimSpace(s)\<close> removes the leading and the trailing white space of \<open>s\<close>, where
  white space is what \<open>unicode.IsSpace\<close> accepts. On the bytes of a UTF-8 string these are the
  six ASCII characters tab, line feed, vertical tab, form feed, carriage return and space,
  and the encodings of U+0085, U+00A0, U+1680, U+2000 to U+200A, U+2028, U+2029, U+202F,
  U+205F and U+3000.
\<close>

definition spaceEncodings :: "string list" where
  "spaceEncodings =
     [[CHR 0x09], [CHR 0x0A], [CHR 0x0B], [CHR 0x0C], [CHR 0x0D], [CHR 0x20],
      [CHR 0xC2, CHR 0x85], [CHR 0xC2, CHR 0xA0],
      [CHR 0xE1, CHR 0x9A, CHR 0x80],
      [CHR 0xE2, CHR 0x80, CHR 0x80], [CHR 0xE2, CHR 0x80, CHR 0x81],
      [CHR 0xE2, CHR 0x80, CHR 0x82], [CHR 0xE2, CHR 0x80, CHR 0x83],
      [CHR 0xE2, CHR 0x80, CHR 0x84], [CHR 0xE2, CHR 0x80, CHR 0x85],
      [CHR 0xE2, CHR 0x80, CHR 0x86], [CHR 0xE2, CHR 0x80, CHR 0x87],
      [CHR 0xE2, CHR 0x80, CHR 0x88], [CHR 0xE2, CHR 0x80, CHR 0x89],
      [CHR 0xE2, CHR 0x80, CHR 0x8A],
      [CHR 0xE2, CHR 0x80, CHR 0xA8], [CHR 0xE2, CHR 0x80, CHR 0xA9],
      [CHR 0xE2, CHR 0x80, CHR 0xAF],
      [CHR 0xE2, CHR 0x81, CHR 0x9F],
      [CHR 0xE3, CHR 0x80, CHR 0x80]]"

text \<open>The white space that \<open>s\<close> starts with, if it starts with any.\<close>

definition leadingSpace :: "string \<Rightarrow> string option" where
  "leadingSpace s = find (HasPrefix s) spaceEncodings"

lemma spaceEncodings_nonempty: "w \<in> set spaceEncodings \<Longrightarrow> w \<noteq> []"
  by (auto simp: spaceEncodings_def)

lemma leadingSpace_Some:
  "leadingSpace s = Some w \<Longrightarrow> w \<in> set spaceEncodings \<and> HasPrefix s w"
  unfolding leadingSpace_def by (auto simp: find_Some_iff)

lemma leadingSpace_shorter:
  assumes "leadingSpace s = Some w"
  shows "length s - length w < length s"
proof -
  from assms have w: "w \<noteq> []" and p: "take (length w) s = w"
    using leadingSpace_Some spaceEncodings_nonempty by (auto simp: HasPrefix_def)
  from p w have "s \<noteq> []" by auto
  with w show ?thesis by simp
qed

text \<open>\<open>strings.TrimLeftFunc(s, unicode.IsSpace)\<close>: leading white space is removed until none is left.\<close>

function trimLeft :: "string \<Rightarrow> string" where
  "trimLeft s =
     (case leadingSpace s of
        None \<Rightarrow> s
      | Some w \<Rightarrow> trimLeft (drop (length w) s))"
  by pat_completeness auto
termination
  by (relation "measure length") (auto simp: leadingSpace_shorter)

declare trimLeft.simps [simp del]

text \<open>
  \<open>strings.TrimRightFunc(s, unicode.IsSpace)\<close>: the same from the right end. An encoding of
  a white space character ends \<open>s\<close> exactly when its reverse starts the reverse of \<open>s\<close>.
\<close>

definition trailingSpace :: "string \<Rightarrow> string option" where
  "trailingSpace s = find (\<lambda>w. HasPrefix (rev s) (rev w)) spaceEncodings"

lemma trailingSpace_Some:
  "trailingSpace s = Some w \<Longrightarrow> w \<in> set spaceEncodings \<and> HasPrefix (rev s) (rev w)"
  unfolding trailingSpace_def by (auto simp: find_Some_iff)

lemma trailingSpace_shorter:
  assumes "trailingSpace s = Some w"
  shows "length s - length w < length s"
proof -
  from assms have w: "w \<noteq> []" and p: "take (length w) (rev s) = rev w"
    using trailingSpace_Some spaceEncodings_nonempty by (auto simp: HasPrefix_def)
  from p w have "s \<noteq> []" by auto
  with w show ?thesis by simp
qed

function trimRight :: "string \<Rightarrow> string" where
  "trimRight s =
     (case trailingSpace s of
        None \<Rightarrow> s
      | Some w \<Rightarrow> trimRight (take (length s - length w) s))"
  by pat_completeness auto
termination
  by (relation "measure length") (auto simp: trailingSpace_shorter)

declare trimRight.simps [simp del]

definition TrimSpace :: "string \<Rightarrow> string" where
  "TrimSpace s = trimRight (trimLeft s)"

text \<open>White space: a sequence of encodings of white space characters.\<close>

inductive spaces :: "string \<Rightarrow> bool" where
  spaces_Nil: "spaces []"
| spaces_Cons: "w \<in> set spaceEncodings \<Longrightarrow> spaces s \<Longrightarrow> spaces (w @ s)"

subsection \<open>Errors\<close>

text \<open>
  Go errors are values. The program never inspects one: it logs it and gives up. An error is
  kept here by its origin and its arguments, not by its rendered message.
\<close>

datatype url_reason =
    InvalidControlCharacter
  | MissingProtocolScheme
  | FirstPathSegmentColon
  | EscapeError
  | InvalidHostError
  | MissingBracket
  | InvalidPort
  | InvalidUserinfo

datatype error =
    url_Error string string url_reason
  | Errorf string string
  | LibError string

subsection \<open>The URL parser of the standard library\<close>

text \<open>
  \<open>extractProjectPath\<close> calls \<open>url.Parse\<close> of Go's package net/url, which is not part of
  the repository. The model follows the library's \<open>Parse\<close>, \<open>parse\<close>, \<open>getScheme\<close>,
  \<open>parseAuthority\<close>, \<open>parseHost\<close> and \<open>unescape\<close> (as of Go 1.22) in what decides the
  fields \<open>Scheme\<close>, \<open>Opaque\<close>, \<open>Host\<close>, \<open>Path\<close>, \<open>RawQuery\<close> and \<open>Fragment\<close> and whether
  parsing fails. The fields \<open>User\<close>, \<open>RawPath\<close>, \<open>RawFragment\<close>, \<open>ForceQuery\<close> and
  \<open>OmitHost\<close> are left out: the program reads \<open>Path\<close> only. Later releases of
  the library check the host more strictly (a bracketed host must be an IPv6 address, and
  a host without brackets may hold one colon only); the links evaluated below have plain
  host names, on which all releases agree.
\<close>

record URL =
  Scheme :: string
  Opaque :: string
  Host :: string
  Path :: string
  RawQuery :: string
  Fragment :: string

definition emptyURL :: URL where
  "emptyURL = \<lparr>Scheme = [], Opaque = [], Host = [], Path = [], RawQuery = [], Fragment = []\<rparr>"

definition byte :: "char \<Rightarrow> nat" where
  "byte c = of_char c"

definition isLower :: "char \<Rightarrow> bool" where
  "isLower c = (97 \<le> byte c \<and> byte c \<le> 122)"

definition isUpper :: "char \<Rightarrow> bool" where
  "isUpper c = (65 \<le> byte c \<and> byte c \<le> 90)"

definition isDigit :: "char \<Rightarrow> bool" where
  "isDigit c = (48 \<le> byte c \<and> byte c \<le> 57)"

text \<open>\<open>strings.Cut(s, sep)\<close> for a separator of one byte: the text before and after its first occurrence.\<close>

definition Cut :: "string \<Rightarrow> char \<Rightarrow> string \<times> string" where
  "Cut s sep = (takeWhile (\<lambda>c. c \<noteq> sep) s, drop 1 (dropWhile (\<lambda>c. c \<noteq> sep) s))"

text \<open>\<open>strings.Index(s, substr)\<close>: where \<open>substr\<close> first occurs in \<open>s\<close>.\<close>

fun Index :: "string \<Rightarrow> string \<Rightarrow> nat option" where
  "Index [] sub = (if sub = [] then Some 0 else None)"
| "Index (c # s) sub =
     (if HasPrefix (c # s) sub then Some 0 else map_option Suc (Index s sub))"

text \<open>\<open>strings.ToLower\<close>, on the ASCII letters (a scheme has no other letters).\<close>

definition ToLower :: "string \<Rightarrow> string" where
  "ToLower s = map (\<lambda>c. if isUpper c then char_of (byte c + 32) else c) s"

definition stringContainsCTLByte :: "string \<Rightarrow> bool" where
  "stringContainsCTLByte s = list_ex (\<lambda>c. byte c < 32 \<or> byte c = 127) s"

text \<open>
  \<open>getScheme\<close>: the loop over the bytes of \<open>rawURL\<close>; \<open>i\<close> is the index of the byte at the
  head of the rest. The result is the scheme and what follows its colon.
\<close>

fun getSchemeFrom :: "string \<Rightarrow> nat \<Rightarrow> string \<Rightarrow> url_reason + string \<times> string" where
  "getSchemeFrom rawURL i [] = Inr ([], rawURL)"
| "getSchemeFrom rawURL i (c # cs) =
     (if isLower c \<or> isUpper c then getSchemeFrom rawURL (Suc i) cs
      else if isDigit c \<or> c = CHR ''+'' \<or> c = CHR ''-'' \<or> c = CHR ''.'' then
        (if i = 0 then Inr ([], rawURL) else getSchemeFrom rawURL (Suc i) cs)
      else if c = CHR '':'' then
        (if i = 0 then Inl MissingProtocolScheme
         else Inr (take i rawURL, drop (Suc i) rawURL))
      else Inr ([], rawURL))"

declare getSchemeFrom.simps [simp del]

definition getScheme :: "string \<Rightarrow> url_reason + string \<times> string" where
  "getScheme rawURL = getSchemeFrom rawURL 0 rawURL"

datatype encoding =
    encodePath
  | encodePathSegment
  | encodeHost
  | encodeZone
  | encodeUserPassword
  | encodeQueryComponent
  | encodeFragment

definition ishex :: "char \<Rightarrow> bool" where
  "ishex c = (isDigit c \<or> (97 \<le> byte c \<and> byte c \<le> 102) \<or> (65 \<le> byte c \<and> byte c \<le> 70))"

definition unhex :: "char \<Rightarrow> nat" where
  "unhex c =
     (if isDigit c then byte c - 48
      else if 97 \<le> byte c \<and> byte c \<le> 102 then byte c - 97 + 10
      else if 65 \<le> byte c \<and> byte c \<le> 70 then byte c - 65 + 10
      else 0)"

text \<open>\<open>shouldEscape(c, encodeHost)\<close>: the ASCII bytes a host may not hold unescaped.\<close>

definition shouldEscapeHost :: "char \<Rightarrow> bool" where
  "shouldEscapeHost c =
     (\<not> (isLower c \<or> isUpper c \<or> isDigit c \<or> c \<in> set ''!$&()*+,;=:[]<>\"-_.~'' \<or> byte c = 39))"

text \<open>
  \<open>unescape(s, mode)\<close>: every \<open>%XX\<close> becomes the byte it names, and in a query component a
  \<open>+\<close> becomes a space. It fails on a \<open>%\<close> that two hexadecimal digits do not follow, and in
  a host or an IPv6 zone on the bytes and escapes a host may not hold.
\<close>

fun unescape :: "string \<Rightarrow> encoding \<Rightarrow> url_reason + string" where
  "unescape [] mode = Inr []"
| "unescape (c # s) mode =
     (if c = CHR ''%'' then
        (case s of
           h1 # h2 # rest \<Rightarrow>
             if \<not> ishex h1 \<or> \<not> ishex h2 then Inl EscapeError
             else if mode = encodeHost \<and> unhex h1 < 8 \<and> [h1, h2] \<noteq> ''25'' then Inl EscapeError
             else if mode = encodeZone \<and> [h1, h2] \<noteq> ''25'' \<and> unhex h1 * 16 + unhex h2 \<noteq> 32
                     \<and> shouldEscapeHost (char_of (unhex h1 * 16 + unhex h2)) then Inl EscapeError
             else (case unescape rest mode of
                     Inl e \<Rightarrow> Inl e
                   | Inr t \<Rightarrow> Inr (char_of (unhex h1 * 16 + unhex h2) # t))
         | _ \<Rightarrow> Inl EscapeError)
      else if (mode = encodeHost \<or> mode = encodeZone) \<and> c \<noteq> CHR ''+'' \<and> byte c < 128
                \<and> shouldEscapeHost c then Inl InvalidHostError
      else (case unescape s mode of
              Inl e \<Rightarrow> Inl e
            | Inr t \<Rightarrow>
                Inr ((if c = CHR ''+'' \<and> mode = encodeQueryComponent then CHR '' '' else c) # t)))"

declare unescape.simps [simp del]

definition validOptionalPort :: "string \<Rightarrow> bool" where
  "validOptionalPort port =
     (case port of
        [] \<Rightarrow> True
      | c # ds \<Rightarrow> c = CHR '':'' \<and> list_all isDigit ds)"

text \<open>The text after the last occurrence of \<open>sep\<close> in \<open>s\<close> (all of \<open>s\<close> when there is none).\<close>

definition afterLast :: "string \<Rightarrow> char \<Rightarrow> string" where
  "afterLast s sep = rev (takeWhile (\<lambda>c. c \<noteq> sep) (rev s))"

text \<open>\<open>parseHost\<close>: the host, unescaped, of the form \<open>host\<close>, \<open>host:port\<close> or \<open>[ipv6]:port\<close>.\<close>

definition parseHost :: "string \<Rightarrow> url_reason + string" where
  "parseHost host =
     (if HasPrefix host ''['' then
        (if CHR '']'' \<notin> set host then Inl MissingBracket
         else
           let colonPort = afterLast host CHR '']'';
               i = length host - length colonPort - 1
           in if \<not> validOptionalPort colonPort then Inl InvalidPort
              else (case Index (take i host) ''%25'' of
                      Some zone \<Rightarrow>
                        (case unescape (take zone host) encodeHost of
                           Inl e \<Rightarrow> Inl e
                         | Inr host1 \<Rightarrow>
                             (case unescape (drop zone (take i host)) encodeZone of
                                Inl e \<Rightarrow> Inl e
                              | Inr host2 \<Rightarrow>
                                  (case unescape (drop i host) encodeHost of
                                     Inl e \<Rightarrow> Inl e
                                   | Inr host3 \<Rightarrow> Inr (host1 @ host2 @ host3))))
                    | None \<Rightarrow> unescape host encodeHost))
      else if CHR '':'' \<in> set host
              \<and> \<not> validOptionalPort (CHR '':'' # afterLast host CHR '':'') then Inl InvalidPort
      else unescape host encodeHost)"

definition validUserinfo :: "string \<Rightarrow> bool" where
  "validUserinfo s =
     list_all (\<lambda>c. isUpper c \<or> isLower c \<or> isDigit c \<or> c \<in> set ''-._:~!$&()*+,;=%@'' \<or> byte c = 39) s"

text \<open>
  \<open>parseAuthority\<close>: \<open>[userinfo@]host\<close>. The host is parsed first; the user information is
  then checked and unescaped (its value is not kept).
\<close>

definition parseAuthority :: "string \<Rightarrow> url_reason + string" where
  "parseAuthority authority =
     (case parseHost (afterLast authority CHR ''@'') of
        Inl e \<Rightarrow> Inl e
      | Inr host \<Rightarrow>
          if CHR ''@'' \<notin> set authority then Inr host
          else
            let userinfo = take (length authority - length (afterLast authority CHR ''@'') - 1) authority
            in if \<not> validUserinfo userinfo then Inl InvalidUserinfo
               else (case unescape (fst (Cut userinfo CHR '':'')) encodeUserPassword of
                       Inl e \<Rightarrow> Inl e
                     | Inr username \<Rightarrow>
                         (case unescape (snd (Cut userinfo CHR '':'')) encodeUserPassword of
                            Inl e \<Rightarrow> Inl e
                          | Inr password \<Rightarrow> Inr host)))"

text \<open>
  \<open>parse(rawURL, false)\<close>: the URL without its fragment. In order: the control characters,
  the URL \<open>*\<close>, the scheme, the query, a rootless rest (opaque after a scheme; otherwise its
  first segment may hold no colon), the authority after \<open>//\<close>, and the path, unescaped.
\<close>

definition parse :: "string \<Rightarrow> url_reason + URL" where
  "parse rawURL =
     (if stringContainsCTLByte rawURL then Inl InvalidControlCharacter
      else if rawURL = ''*'' then Inr (emptyURL\<lparr>Path := ''*''\<rparr>)
      else
        (case getScheme rawURL of
           Inl e \<Rightarrow> Inl e
         | Inr (scheme, rest0) \<Rightarrow>
             let url = emptyURL\<lparr>Scheme := ToLower scheme, RawQuery := snd (Cut rest0 CHR ''?'')\<rparr>;
                 rest = fst (Cut rest0 CHR ''?'')
             in if \<not> HasPrefix rest ''/'' \<and> scheme \<noteq> [] then Inr (url\<lparr>Opaque := rest\<rparr>)
                else if \<not> HasPrefix rest ''/'' \<and> CHR '':'' \<in> set (fst (Cut rest CHR ''/''))
                  then Inl FirstPathSegmentColon
                else if (scheme \<noteq> [] \<or> \<not> HasPrefix rest ''///'') \<and> HasPrefix rest ''//'' then
                  (let authority = takeWhile (\<lambda>c. c \<noteq> CHR ''/'') (drop 2 rest);
                       rest' = dropWhile (\<lambda>c. c \<noteq> CHR ''/'') (drop 2 rest)
                   in case parseAuthority authority of
                        Inl e \<Rightarrow> Inl e
                      | Inr host \<Rightarrow>
                          (case unescape rest' encodePath of
                             Inl e \<Rightarrow> Inl e
                           | Inr path \<Rightarrow> Inr (url\<lparr>Host := host, Path := path\<rparr>)))
                else
                  (case unescape rest encodePath of
                     Inl e \<Rightarrow> Inl e
                   | Inr path \<Rightarrow> Inr (url\<lparr>Path := path\<rparr>))))"

text \<open>
  \<open>url.Parse(rawURL)\<close>: the fragment is cut off at the first \<open>#\<close>, the rest is parsed, and
  the fragment is unescaped. An error is wrapped into a \<open>*url.Error\<close> with the operation
  \<open>parse\<close> and the text that failed.
\<close>

definition url_Parse :: "string \<Rightarrow> error + URL" where
  "url_Parse rawURL =
     (let u = fst (Cut rawURL CHR ''#''); frag = snd (Cut rawURL CHR ''#'')
      in case parse u of
           Inl e \<Rightarrow> Inl (url_Error ''parse'' u e)
         | Inr url \<Rightarrow>
             if frag = [] then Inr url
             else (case unescape frag encodeFragment of
                     Inl e \<Rightarrow> Inl (url_Error ''parse'' rawURL e)
                   | Inr f \<Rightarrow> Inr (url\<lparr>Fragment := f\<rparr>)))"

subsection \<open>Effects\<close>

text \<open>
  A call of the logger is kept with its format string and its arguments, as the source
  writes them; rendering them (and the time stamp that the logger puts in front) is the
  library's. \<open>log.Fatal\<close> and \<open>log.Fatalf\<close> log and then call \<open>os.Exit(1)\<close>.
\<close>

datatype arg = S string | E error

record ListProjectIssuesOptions =
  State :: string
  PerPage :: nat
  Labels :: "string list"
  NotLabels :: "string list"

datatype event =
    LogPrintln "arg list"
  | LogPrintf string "arg list"
  | LogFatal "arg list"
  | LogFatalf string "arg list"
  | FmtPrintln "arg list"
  | CallUserHomeDir
  | CallReadFile string
  | CallNewClient string
  | CallListProjectIssues string ListProjectIssuesOptions
  | CallGetIssue string int
  | CallCreate string
  | CallWrite "string list"
  | CallFlush
  | CallClose

definition newline :: string where
  "newline = [CHR 0x0A]"

subsection \<open>extractProjectPath\<close>

text \<open>
  The Go function returns a pair: the project path and an error, which is \<open>nil\<close> (here
  \<open>None\<close>) on success. The second component of the model's result is what it logs.
  \<open>pathSegments[1:5]\<close> is \<open>take 4 (drop 1 pathSegments)\<close>; the guard before it makes sure
  that the list has five elements.
\<close>

definition extractProjectPath :: "string \<Rightarrow> (string \<times> error option) \<times> event list" where
  "extractProjectPath issuesLink =
     (case url_Parse issuesLink of
        Inl err \<Rightarrow>
          (([], Some err), [LogPrintf (''Error parsing GitLab issues link: %v'' @ newline) [E err]])
      | Inr u \<Rightarrow>
          let pathSegments = Split (Path u) CHR ''/''
          in if length pathSegments < 5 then
               (let err = Errorf ''invalid GitLab issues link: %s'' issuesLink
                in (([], Some err),
                    [LogPrintf (''Error extracting project path: %v'' @ newline) [E err]]))
             else ((Join (take 4 (drop 1 pathSegments)) ''/'', None), []))"

subsection \<open>Numbers and times as text\<close>

text \<open>The decimal digits of a natural number, without leading zeros.\<close>

fun digits :: "nat \<Rightarrow> string" where
  "digits n =
     (if n < 10 then [char_of (48 + n)]
      else digits (n div 10) @ [char_of (48 + n mod 10)])"

declare digits.simps [simp del]

text \<open>The verb \<open>%d\<close> of \<open>fmt.Sprintf\<close> on an \<open>int\<close>.\<close>

definition Itoa :: "int \<Rightarrow> string" where
  "Itoa i = (if i < 0 then ''-'' @ digits (nat (- i)) else digits (nat i))"

text \<open>\<open>appendInt(b, x, width)\<close> of package time: \<open>x\<close> in decimal, padded with zeros to \<open>width\<close>.\<close>

definition appendInt :: "int \<Rightarrow> nat \<Rightarrow> string" where
  "appendInt x width =
     (if x < 0 then ''-'' else []) @
     replicate (width - length (digits (nat \<bar>x\<bar>))) CHR ''0'' @ digits (nat \<bar>x\<bar>)"

text \<open>
  A \<open>time.Time\<close>, by the calendar date and the clock that \<open>Format\<close> reads off it (in the
  time's own location).
\<close>

record Time =
  Year :: int
  Month :: nat
  Day :: nat
  Hour :: nat
  Minute :: nat
  Second :: nat

text \<open>
  The elements of a layout of \<open>Time.Format\<close>, as \<open>nextStdChunk\<close> names them. Of the
  elements that package time knows, the model reads the six that the program's two layouts
  use, \<open>2006\<close>, \<open>01\<close>, \<open>02\<close>, \<open>15\<close>, \<open>04\<close> and \<open>05\<close>; every other character of a layout
  stands for itself (as \<open>-\<close>, \<open>_\<close>, \<open>:\<close> and the space of those layouts do).
\<close>

datatype chunk =
    stdLongYear
  | stdZeroMonth
  | stdZeroDay
  | stdHour
  | stdZeroMinute
  | stdZeroSecond
  | literal char

fun chunks :: "string \<Rightarrow> chunk list" where
  "chunks [] = []"
| "chunks (c # l) =
     (if HasPrefix (c # l) ''2006'' then stdLongYear # chunks (drop 3 l)
      else if HasPrefix (c # l) ''01'' then stdZeroMonth # chunks (drop 1 l)
      else if HasPrefix (c # l) ''02'' then stdZeroDay # chunks (drop 1 l)
      else if HasPrefix (c # l) ''15'' then stdHour # chunks (drop 1 l)
      else if HasPrefix (c # l) ''04'' then stdZeroMinute # chunks (drop 1 l)
      else if HasPrefix (c # l) ''05'' then stdZeroSecond # chunks (drop 1 l)
      else literal c # chunks l)"

declare chunks.simps [simp del]

fun formatChunk :: "Time \<Rightarrow> chunk \<Rightarrow> string" where
  "formatChunk t stdLongYear = appendInt (Year t) 4"
| "formatChunk t stdZeroMonth = appendInt (int (Month t)) 2"
| "formatChunk t stdZeroDay = appendInt (int (Day t)) 2"
| "formatChunk t stdHour = appendInt (int (Hour t)) 2"
| "formatChunk t stdZeroMinute = appendInt (int (Minute t)) 2"
| "formatChunk t stdZeroSecond = appendInt (int (Second t)) 2"
| "formatChunk t (literal c) = [c]"

definition Format :: "Time \<Rightarrow> string \<Rightarrow> string" where
  "Format t layout = concat (map (formatChunk t) (chunks layout))"

subsection \<open>The environment\<close>

text \<open>
  The issue records of the GitLab client library (\<open>gitlab.Issue\<close>), with the fields that the
  program reads. \<open>Assignee\<close>, \<open>Author\<close> and \<open>CreatedAt\<close> are pointers in the library and may
  be \<open>nil\<close>.
\<close>

record IssueAssignee =
  Name :: string

record IssueAuthor =
  Username :: string

record Issue =
  IID :: int
  Title :: string
  Assignee :: "IssueAssignee option"
  Author :: "IssueAuthor option"
  CreatedAt :: "Time option"
  WebURL :: string

text \<open>
  What the outside world answers. The client that \<open>gitlab.NewClient\<close> returns is known by the
  token it was made from, the first argument of the two remote calls. \<open>GetIssue\<close> and the
  CSV writer's \<open>Write\<close> are called once per issue, so their answers may depend on the number
  of the call: the first argument of \<open>Issues_GetIssue\<close> is the position of the issue in the
  list (from 0), that of \<open>writer_Write\<close> is 0 for the header and \<open>k + 1\<close> for the row of issue
  \<open>k\<close>. Every call that can fail in Go can fail here. The issues that the list call
  returns are records (no \<open>nil\<close> among them).
\<close>

record env =
  os_UserHomeDir :: "error + string"
  os_ReadFile :: "string \<Rightarrow> error + string"
  gitlab_NewClient :: "string \<Rightarrow> error option"
  Issues_ListProjectIssues :: "string \<Rightarrow> string \<Rightarrow> ListProjectIssuesOptions \<Rightarrow> error + Issue list"
  Issues_GetIssue :: "nat \<Rightarrow> string \<Rightarrow> string \<Rightarrow> int \<Rightarrow> error + Issue"
  time_Now :: Time
  os_Create :: "string \<Rightarrow> error option"
  writer_Write :: "nat \<Rightarrow> string list \<Rightarrow> error option"

text \<open>The command line, as \<open>flag.Parse\<close> leaves it in the three variables.\<close>

record flags =
  releaseLabel :: string
  readyForTest :: bool
  blockerLabel :: string

text \<open>
  How the process ends: \<open>main\<close> returns (exit status 0), \<open>log.Fatal\<close> or \<open>log.Fatalf\<close> calls
  \<open>os.Exit(1)\<close>, or a nil pointer is dereferenced and the run-time system panics.
\<close>

datatype exit = Return | Exit1 | Panic

subsection \<open>readGitLabTokenFromFile and resolveHome\<close>

definition readGitLabTokenFromFile ::
  "env \<Rightarrow> string \<Rightarrow> (string \<times> error option) \<times> event list" where
  "readGitLabTokenFromFile env tokenFile =
     (case os_ReadFile env tokenFile of
        Inl err \<Rightarrow>
          (([], Some err),
           [CallReadFile tokenFile,
            LogPrintf (''Error reading GitLab token file: %v'' @ newline) [E err]])
      | Inr tokenBytes \<Rightarrow> ((TrimSpace tokenBytes, None), [CallReadFile tokenFile]))"

text \<open>\<open>resolveHome\<close> updates the string that its argument points to; the model returns it.\<close>

definition resolveHome :: "env \<Rightarrow> string \<Rightarrow> string \<times> event list" where
  "resolveHome env path =
     (case os_UserHomeDir env of
        Inl err \<Rightarrow> (path, [CallUserHomeDir, LogPrintln [E err]])
      | Inr expandedPath \<Rightarrow> (Replace1 path ''~'' expandedPath, [CallUserHomeDir]))"

subsection \<open>main\<close>

text \<open>
  \<open>main\<close> is modelled in parts, from its end to its start. Each part returns how the
  process ends and the events of that part, in order.

  The loop of lines 147 to 174: one detail fetch and one row per issue. \<open>k\<close> is the position
  of the issue at the head of the list. \<open>detailedIssue.Author.Username\<close> and
  \<open>detailedIssue.CreatedAt.Format\<close> dereference pointers, so a detail record without an
  author or without a creation time makes the program panic.
\<close>

fun writeRows :: "env \<Rightarrow> string \<Rightarrow> string \<Rightarrow> nat \<Rightarrow> Issue list \<Rightarrow> exit \<times> event list" where
  "writeRows env git projectPath k [] = (Return, [])"
| "writeRows env git projectPath k (issue # issues) =
     (let assignee = (case Assignee issue of None \<Rightarrow> ''Unassigned'' | Some a \<Rightarrow> Name a)
      in case Issues_GetIssue env k git projectPath (IID issue) of
           Inl err \<Rightarrow>
             (Exit1,
              [CallGetIssue projectPath (IID issue),
               LogFatalf ''Failed to get detailed issue: %v'' [E err]])
         | Inr detailedIssue \<Rightarrow>
             let issueLink = ''[#'' @ Itoa (IID issue) @ '']('' @ WebURL detailedIssue @ '')''
             in case Author detailedIssue of
                  None \<Rightarrow> (Panic, [CallGetIssue projectPath (IID issue)])
                | Some author \<Rightarrow>
                    (case CreatedAt detailedIssue of
                       None \<Rightarrow> (Panic, [CallGetIssue projectPath (IID issue)])
                     | Some createdAt \<Rightarrow>
                         let row = [issueLink, Title detailedIssue, assignee, Username author,
                                    Format createdAt ''2006-01-02 15:04:05'']
                         in case writer_Write env (Suc k) row of
                              Some err \<Rightarrow>
                                (Exit1,
                                 [CallGetIssue projectPath (IID issue), CallWrite row,
                                  LogFatalf ''Failed to write row to CSV: %v'' [E err]])
                            | None \<Rightarrow>
                                (case writeRows env git projectPath (Suc k) issues of
                                   (r, evs) \<Rightarrow>
                                     (r, CallGetIssue projectPath (IID issue) # CallWrite row # evs))))"

definition header :: "string list" where
  "header = [''Issue'', ''Summary'', ''Assignee'', ''Author'', ''Date of Creation'']"

text \<open>Lines 138 to 176: the header, the loop and the message on the console.\<close>

definition writeReport :: "env \<Rightarrow> string \<Rightarrow> string \<Rightarrow> Issue list \<Rightarrow> exit \<times> event list" where
  "writeReport env git projectPath issues =
     (case writer_Write env 0 header of
        Some err \<Rightarrow>
          (Exit1, [CallWrite header, LogFatalf ''Failed to write header to CSV: %v'' [E err]])
      | None \<Rightarrow>
          (case writeRows env git projectPath 0 issues of
             (r, evs) \<Rightarrow>
               (r, [CallWrite header, LogPrintln [S ''Header written to CSV successfully.'']] @ evs @
                   (if r = Return then [FmtPrintln [S ''CSV file created successfully.'']] else []))))"

text \<open>
  The calls that lines 130 and 136 defer, \<open>outputFile.Close()\<close> and \<open>writer.Flush()\<close>. Go
  runs deferred calls, last deferred first, when the function returns and when it panics;
  \<open>os.Exit\<close> ends the process at once and runs none. The CSV writer keeps the records it
  is given in a buffer, and \<open>Flush\<close> writes the buffer to the file. Neither \<open>Flush\<close> nor
  \<open>Close\<close> reports a failure to the program (it never reads \<open>writer.Error()\<close>), so the
  model has none for them.
\<close>

definition deferred :: "exit \<Rightarrow> event list" where
  "deferred r = (if r = Exit1 then [] else [CallFlush, CallClose])"

text \<open>Lines 120 to 136 and the end of \<open>main\<close>: the output file is created and the report written.\<close>

definition createReport :: "env \<Rightarrow> string \<Rightarrow> string \<Rightarrow> Issue list \<Rightarrow> exit \<times> event list" where
  "createReport env git projectPath issues =
     (let currentDateTime = Format (time_Now env) ''2006-01-02_15-04-05'';
          csvFileName = ''issues_output_'' @ currentDateTime @ ''.csv''
      in case os_Create env csvFileName of
           Some err \<Rightarrow>
             (Exit1,
              [LogPrintln [S ''Project issues listed successfully.''], CallCreate csvFileName,
               LogFatalf ''Failed to create CSV file: %v'' [E err]])
         | None \<Rightarrow>
             (case writeReport env git projectPath issues of
                (r, evs) \<Rightarrow>
                  (r, [LogPrintln [S ''Project issues listed successfully.''], CallCreate csvFileName,
                       LogPrintf (''CSV file created: %s'' @ newline) [S csvFileName]]
                      @ evs @ deferred r)))"

text \<open>Lines 94 to 108: the labels an issue must have (\<open>lab\<close>) and must not have (\<open>notLabels\<close>).\<close>

definition labelOptions :: "flags \<Rightarrow> string list \<times> string list" where
  "labelOptions fl =
     ((if releaseLabel fl \<noteq> [] then [releaseLabel fl] else []) @
      (if readyForTest fl then [''READY-FOR-TEST''] else []) @
      (if blockerLabel fl \<noteq> [] then [blockerLabel fl] else []),
      (if readyForTest fl then [] else [''READY-FOR-TEST'']))"

text \<open>Lines 84 to 118: the client is made and the issues of the project are listed.\<close>

definition listIssues :: "env \<Rightarrow> flags \<Rightarrow> string \<Rightarrow> string \<Rightarrow> exit \<times> event list" where
  "listIssues env fl gitlabToken projectPath =
     (case gitlab_NewClient env gitlabToken of
        Some err \<Rightarrow>
          (Exit1,
           [LogPrintf (''Project path: %s'' @ newline) [S projectPath], CallNewClient gitlabToken,
            LogFatalf ''Failed to create GitLab client: %v'' [E err]])
      | None \<Rightarrow>
          let opts = \<lparr>State = ''opened'', PerPage = 100,
                      Labels = fst (labelOptions fl), NotLabels = snd (labelOptions fl)\<rparr>;
              evs = [LogPrintf (''Project path: %s'' @ newline) [S projectPath],
                     CallNewClient gitlabToken,
                     LogPrintln [S ''GitLab client created successfully.''],
                     CallListProjectIssues projectPath opts]
          in case Issues_ListProjectIssues env gitlabToken projectPath opts of
               Inl err \<Rightarrow> (Exit1, evs @ [LogFatalf ''Failed to list project issues: %v'' [E err]])
             | Inr issues \<Rightarrow>
                 (case createReport env gitlabToken projectPath issues of
                    (r, evs') \<Rightarrow> (r, evs @ evs')))"

definition gitlabIssuesLink :: string where
  "gitlabIssuesLink =
     ''https://gitlab.com/f5/volterra/support/technical/-/issues/?sort=created_date&state=opened''"

text \<open>Lines 65 to 82: the token is read and stripped of its prefix, the link is parsed.\<close>

definition loadToken :: "env \<Rightarrow> flags \<Rightarrow> string \<Rightarrow> exit \<times> event list" where
  "loadToken env fl tokenFile =
     (case readGitLabTokenFromFile env tokenFile of
        ((gitlabToken0, Some err), evs) \<Rightarrow>
          (Exit1, evs @ [LogFatalf ''Failed to read GitLab token from file: %v'' [E err]])
      | ((gitlabToken0, None), evs) \<Rightarrow>
          let gitlabToken = TrimPrefix gitlabToken0 ''token:'';
              evs1 = evs @ [LogPrintf (''GitLab issues link: %s'' @ newline) [S gitlabIssuesLink]]
          in case extractProjectPath gitlabIssuesLink of
               ((projectPath, Some err), evs') \<Rightarrow>
                 (Exit1, evs1 @ evs' @ [LogFatalf ''Failed to extract project path: %v'' [E err]])
             | ((projectPath, None), evs') \<Rightarrow>
                 (case listIssues env fl gitlabToken projectPath of
                    (r, evs'') \<Rightarrow> (r, evs1 @ evs' @ evs'')))"

text \<open>Lines 44 to 63: the flags are checked and the path of the token file is resolved.\<close>

definition main :: "env \<Rightarrow> flags \<Rightarrow> exit \<times> event list" where
  "main env fl =
     (if releaseLabel fl = [] \<and> readyForTest fl then
        (Exit1, [LogFatal [S ''Release label is required when filtering by READY-FOR-TEST'']])
      else
        (case resolveHome env ''~/.gitlab'' of
           (tokenFile, evs) \<Rightarrow>
             (case loadToken env fl tokenFile of
                (r, evs') \<Rightarrow>
                  (r, [LogPrintln [S ''Starting the program...'']] @ evs @
                      [LogPrintf (''Token file path: %s'' @ newline) [S tokenFile]] @ evs'))))"

subsection \<open>Example runs\<close>

text \<open>
  A run of the program with two open issues: the list call returns issue 41 with an assignee
  and issue 42 without one, while the detail record of issue 42 names an assignee.
\<close>

definition exampleTime :: Time where
  "exampleTime = \<lparr>Year = 2024, Month = 3, Day = 26, Hour = 9, Minute = 5, Second = 7\<rparr>"

definition exampleIssues :: "Issue list" where
  "exampleIssues =
     [\<lparr>IID = 41, Title = ''Upgrade fails'', Assignee = Some \<lparr>Name = ''Alice''\<rparr>,
       Author = Some \<lparr>Username = ''carol''\<rparr>, CreatedAt = Some exampleTime,
       WebURL = ''https://gitlab.com/p/-/issues/41''\<rparr>,
      \<lparr>IID = 42, Title = ''Login is slow'', Assignee = None,
       Author = Some \<lparr>Username = ''dave''\<rparr>, CreatedAt = Some exampleTime,
       WebURL = ''https://gitlab.com/p/-/issues/42''\<rparr>]"

definition exampleDetail :: "int \<Rightarrow> Issue" where
  "exampleDetail iid =
     (if iid = 41 then
        \<lparr>IID = 41, Title = ''Upgrade fails'', Assignee = Some \<lparr>Name = ''Alice''\<rparr>,
         Author = Some \<lparr>Username = ''carol''\<rparr>, CreatedAt = Some exampleTime,
         WebURL = ''https://gitlab.com/p/-/issues/41''\<rparr>
      else
        \<lparr>IID = iid, Title = ''Login is slow (detail)'', Assignee = Some \<lparr>Name = ''Bob''\<rparr>,
         Author = Some \<lparr>Username = ''dave''\<rparr>,
         CreatedAt = Some (exampleTime\<lparr>Hour := 17, Minute := 30\<rparr>),
         WebURL = ''https://gitlab.com/p/-/issues/42''\<rparr>)"

definition exampleEnv :: env where
  "exampleEnv =
     \<lparr>os_UserHomeDir = Inr ''/home/u'',
      os_ReadFile = (\<lambda>path. if path = ''/home/u/.gitlab'' then Inr ('' token:abc123'' @ newline)
                             else Inl (LibError ''no such file or directory'')),
      gitlab_NewClient = (\<lambda>token. None),
      Issues_ListProjectIssues = (\<lambda>git projectPath opts. Inr exampleIssues),
      Issues_GetIssue = (\<lambda>k git projectPath iid. Inr (exampleDetail iid)),
      time_Now = exampleTime,
      os_Create = (\<lambda>name. None),
      writer_Write = (\<lambda>k row. None)\<rparr>"

definition exampleFlags :: flags where
  "exampleFlags =
     \<lparr>releaseLabel = ''Release::Mar-26-2024'', readyForTest = True,
      blockerLabel = ''blocker/staging-upgrade''\<rparr>"

text \<open>The flag \<open>-ready-for-test\<close> without a release label.\<close>

definition flagsWithoutRelease :: flags where
  "flagsWithoutRelease = \<lparr>releaseLabel = [], readyForTest = True, blockerLabel = []\<rparr>"

text \<open>The same run when the home directory of the user cannot be found.\<close>

definition envWithoutHome :: env where
  "envWithoutHome = exampleEnv\<lparr>os_UserHomeDir := Inl (LibError ''$HOME is not defined'')\<rparr>"


text \<open>The same run when the detail fetch of the second issue fails.\<close>

definition envDetailFails :: env where
  "envDetailFails =
     exampleEnv\<lparr>Issues_GetIssue :=
       (\<lambda>k git projectPath iid.
          if k = 0 then Inr (exampleDetail iid) else Inl (LibError ''connection reset''))\<rparr>"






text \<open>The records handed to the CSV writer, in order.\<close>

fun written :: "event list \<Rightarrow> string list list" where
  "written [] = []"
| "written (CallWrite row # evs) = row # written evs"
| "written (ev # evs) = written evs"

section \<open>Properties\<close>

subsection \<open>Splitting and joining\<close>

lemma Split_nonempty: "Split s c \<noteq> []"
  by (induction s) (auto split: list.splits)

text \<open>A string has one segment more than it has separators: empty segments count.\<close>

lemma length_Split: "length (Split s c) = Suc (length (filter (\<lambda>x. x = c) s))"
  by (induction s) (auto split: list.splits simp: Split_nonempty)

lemma Split_no_sep: "c \<notin> set s \<Longrightarrow> Split s c = [s]"
  by (induction s) auto

lemma Split_append_sep: "c \<notin> set seg \<Longrightarrow> Split (seg @ c # s) c = seg # Split s c"
  by (induction seg) auto

lemma Split_segments_free: "seg \<in> set (Split s c) \<Longrightarrow> c \<notin> set seg"
proof (induction s arbitrary: seg)
  case Nil
  then show ?case by simp
next
  case (Cons x s)
  show ?case
  proof (cases "x = c")
    case True
    with Cons show ?thesis by auto
  next
    case False
    obtain y ys where ys: "Split s c = y # ys"
      using Split_nonempty by (cases "Split s c") auto
    with Cons False show ?thesis by auto
  qed
qed

text \<open>Joining segments that hold no separator and splitting again gives the segments back.\<close>

lemma Split_Join:
  "segs \<noteq> [] \<Longrightarrow> \<forall>seg \<in> set segs. c \<notin> set seg \<Longrightarrow> Split (Join segs [c]) c = segs"
proof (induction segs "[c]" rule: Join.induct)
  case 1
  then show ?case by simp
next
  case (2 e)
  then show ?case by (simp add: Split_no_sep)
next
  case (3 e v va)
  then show ?case by (simp add: Split_append_sep)
qed

subsection \<open>extractProjectPath\<close>

lemma extractProjectPath_result:
  "fst (extractProjectPath l) = (p, None) \<Longrightarrow>
   \<exists>u. url_Parse l = Inr u \<and> 5 \<le> length (Split (Path u) CHR ''/'') \<and>
       p = Join (take 4 (drop 1 (Split (Path u) CHR ''/''))) ''/''"
  by (auto simp: extractProjectPath_def Let_def split: sum.splits if_splits)

lemma extractProjectPath_four_segments:
  assumes "fst (extractProjectPath l) = (p, None)"
  shows "length (Split p CHR ''/'') = 4"
proof -
  from extractProjectPath_result [OF assms] obtain u :: URL where
    len: "5 \<le> length (Split (Path u) CHR ''/'')" and
    p: "p = Join (take 4 (drop 1 (Split (Path u) CHR ''/''))) ''/''"
    by blast
  let ?segs = "take 4 (drop 1 (Split (Path u) CHR ''/''))"
  from len have l4: "length ?segs = 4" by simp
  then have ne: "?segs \<noteq> []" by auto
  have free: "\<forall>seg \<in> set ?segs. CHR ''/'' \<notin> set seg"
    using Split_segments_free by (metis in_set_dropD in_set_takeD)
  from Split_Join [OF ne free] p l4 show ?thesis by simp
qed

lemma extractProjectPath_host_example:
  "extractProjectPath ''https://host/a/b/c/d/e?query'' = ((''a/b/c/d'', None), [])"
  by code_simp

lemma extractProjectPath_reapplied:
  "extractProjectPath ''a/b/c/d'' =
     (([], Some (Errorf ''invalid GitLab issues link: %s'' ''a/b/c/d'')),
      [LogPrintf (''Error extracting project path: %v'' @ newline)
         [E (Errorf ''invalid GitLab issues link: %s'' ''a/b/c/d'')]])"
  by code_simp


text \<open>
  C3, as the spec states it, fails: link parsing is not idempotent. The project path that
  \<open>extractProjectPath\<close> extracts from \<open>https://host/a/b/c/d/e?query\<close> is \<open>a/b/c/d\<close>, and
  \<open>extractProjectPath\<close> applied to \<open>a/b/c/d\<close> does not return \<open>a/b/c/d\<close> again.
\<close>

theorem extractProjectPath_idempotent_counterexample:
  "fst (extractProjectPath (fst (fst (extractProjectPath ''https://host/a/b/c/d/e?query''))))
     \<noteq> fst (extractProjectPath ''https://host/a/b/c/d/e?query'')"
  by (simp add: extractProjectPath_host_example extractProjectPath_reapplied)

text \<open>
  C3, amended. Link parsing is deterministic and not idempotent. For the link
  \<open>https://host/a/b/c/d/e?query\<close> \<open>extractProjectPath\<close> succeeds and returns \<open>a/b/c/d\<close>.
  Equal links give equal results: the Go function reads nothing but its argument, so the
  model is a function of the link alone. Applied to its own output \<open>a/b/c/d\<close> it fails with
  the error \<open>invalid GitLab issues link\<close> and returns the empty path, because a project path
  that it returns always splits into exactly four segments and it asks for five.
\<close>

theorem extractProjectPath_deterministic_not_idempotent:
  "fst (extractProjectPath ''https://host/a/b/c/d/e?query'') = (''a/b/c/d'', None)
   \<and> (\<forall>l l'. l = l' \<longrightarrow> extractProjectPath l = extractProjectPath l')
   \<and> fst (extractProjectPath ''a/b/c/d'')
       = ([], Some (Errorf ''invalid GitLab issues link: %s'' ''a/b/c/d''))
   \<and> (\<forall>l p. fst (extractProjectPath l) = (p, None) \<longrightarrow> length (Split p CHR ''/'') = 4)"
  using extractProjectPath_four_segments
  by (simp add: extractProjectPath_host_example extractProjectPath_reapplied)

theorem extractProjectPath_deterministic_not_idempotent_witness:
  "fst (extractProjectPath ''https://host/a/b/c/d/e?query'') = (''a/b/c/d'', None)
   \<and> extractProjectPath ''https://host/a/b/c/d/e?query''
       = extractProjectPath ''https://host/a/b/c/d/e?query''
   \<and> length (Split ''a/b/c/d'' CHR ''/'') = 4"
  using extractProjectPath_deterministic_not_idempotent by blast

text \<open>
  C4, as the spec states it, fails: a link whose path has fewer than four non-empty segments
  after the leading slash can succeed. The path of \<open>https://host/a/b/c/\<close> is \<open>/a/b/c/\<close>, with
  the three non-empty segments \<open>a\<close>, \<open>b\<close>, \<open>c\<close> after the leading slash, and
  \<open>extractProjectPath\<close> returns the project path \<open>a/b/c/\<close> and no error.
\<close>

theorem extractProjectPath_empty_segment_counterexample:
  "(case url_Parse ''https://host/a/b/c/'' of
      Inl err \<Rightarrow> False
    | Inr u \<Rightarrow> Path u = ''/a/b/c/''
        \<and> length (filter (\<lambda>seg. seg \<noteq> []) (tl (Split (Path u) CHR ''/''))) = 3)
   \<and> fst (extractProjectPath ''https://host/a/b/c/'') = (''a/b/c/'', None)"
  by code_simp

text \<open>
  C4, amended. \<open>extractProjectPath\<close> returns an error exactly when the link cannot be parsed
  or when splitting its path at \<open>/\<close> gives fewer than 5 segments, where every segment counts,
  the empty ones too (the one before the leading slash among them); that is, when the path
  has fewer than four slashes. Whenever it returns an error, the project path that it
  returns is empty.
\<close>

theorem extractProjectPath_fails_iff:
  "(snd (fst (extractProjectPath l)) \<noteq> None)
     = (case url_Parse l of
          Inl err \<Rightarrow> True
        | Inr u \<Rightarrow> length (Split (Path u) CHR ''/'') < 5)
   \<and> (snd (fst (extractProjectPath l)) \<noteq> None)
     = (case url_Parse l of
          Inl err \<Rightarrow> True
        | Inr u \<Rightarrow> length (filter (\<lambda>c. c = CHR ''/'') (Path u)) < 4)
   \<and> (snd (fst (extractProjectPath l)) \<noteq> None \<longrightarrow> fst (fst (extractProjectPath l)) = [])"
  by (auto simp: extractProjectPath_def Let_def length_Split split: sum.splits)

theorem extractProjectPath_fails_iff_witness:
  "snd (fst (extractProjectPath ''https://host/a/b'')) \<noteq> None
   \<and> fst (fst (extractProjectPath ''https://host/a/b'')) = []"
proof -
  have "snd (fst (extractProjectPath ''https://host/a/b'')) \<noteq> None"
    by code_simp
  with extractProjectPath_fails_iff [of "''https://host/a/b''"] show ?thesis
    by blast
qed


subsection \<open>The events of a run\<close>

lemma writeRows_events:
  "writeRows env git projectPath k issues = (r, evs) \<Longrightarrow> ev \<in> set evs \<Longrightarrow>
   (\<exists>p iid. ev = CallGetIssue p iid) \<or> (\<exists>row. ev = CallWrite row) \<or> (\<exists>f as. ev = LogFatalf f as)"
proof (induction issues arbitrary: k r evs)
  case Nil
  then show ?case by simp
next
  case (Cons issue issues)
  from Cons.prems show ?case
    by (auto simp: Let_def split: sum.splits option.splits prod.splits dest: Cons.IH)
qed



lemma extractProjectPath_logs_only:
  "extractProjectPath l = (res, evs) \<Longrightarrow> ev \<in> set evs \<Longrightarrow> \<exists>f as. ev = LogPrintf f as"
  by (auto simp: extractProjectPath_def Let_def split: sum.splits if_splits)





text \<open>
  C2. When \<open>-ready-for-test\<close> is set and the release label is empty, \<open>main\<close> ends in
  \<open>log.Fatal\<close> (exit status 1) and the fatal message is its only event: the home directory
  is not asked for, the token file is not read, no client is made, and neither remote call
  is made.
\<close>

theorem main_release_required:
  assumes "releaseLabel fl = []" and "readyForTest fl"
  shows "main env fl =
           (Exit1, [LogFatal [S ''Release label is required when filtering by READY-FOR-TEST'']])
         \<and> CallUserHomeDir \<notin> set (snd (main env fl))
         \<and> (\<forall>path. CallReadFile path \<notin> set (snd (main env fl)))
         \<and> (\<forall>token. CallNewClient token \<notin> set (snd (main env fl)))
         \<and> (\<forall>p opts. CallListProjectIssues p opts \<notin> set (snd (main env fl)))
         \<and> (\<forall>p iid. CallGetIssue p iid \<notin> set (snd (main env fl)))"
  using assms by (simp add: main_def)

theorem main_release_required_witness:
  "main exampleEnv flagsWithoutRelease =
     (Exit1, [LogFatal [S ''Release label is required when filtering by READY-FOR-TEST'']])"
  using main_release_required [of flagsWithoutRelease exampleEnv]
  by (simp add: flagsWithoutRelease_def)

subsection \<open>resolveHome\<close>

lemma replaceFirst_first:
  "c \<notin> set a \<Longrightarrow> replaceFirst (a @ c # b) [c] new = a @ new @ b"
  by (induction a) (auto simp: HasPrefix_def)

lemma replaceFirst_absent:
  "c \<notin> set s \<Longrightarrow> replaceFirst s [c] new = s"
  by (induction s) (auto simp: HasPrefix_def)

lemma Replace1_first:
  "c \<notin> set a \<Longrightarrow> Replace1 (a @ c # b) [c] new = a @ new @ b"
  by (auto simp: Replace1_def replaceFirst_first)

lemma Replace1_absent:
  "c \<notin> set s \<Longrightarrow> Replace1 s [c] new = s"
  by (simp add: Replace1_def replaceFirst_absent)

lemma loadToken_reads:
  "CallReadFile tokenFile \<in> set (snd (loadToken env fl tokenFile))"
  by (auto simp: loadToken_def readGitLabTokenFromFile_def Let_def
           split: option.splits sum.splits prod.splits)

text \<open>
  C8. When \<open>os.UserHomeDir\<close> fails, \<open>resolveHome\<close> logs the error and leaves the path as
  it is, and \<open>main\<close> goes on: it logs the unexpanded path \<open>~/.gitlab\<close> and reads the token
  file at that path (how the run ends is then up to the rest of \<open>main\<close>). When
  \<open>os.UserHomeDir\<close> succeeds, \<open>resolveHome\<close> replaces the first \<open>~\<close> of the path by the
  home directory, so \<open>~/.gitlab\<close> becomes the file \<open>.gitlab\<close> of the home directory; a path
  without \<open>~\<close> stays as it is.
\<close>

theorem resolveHome_failure_not_fatal:
  "(os_UserHomeDir env = Inl err \<longrightarrow>
      resolveHome env path = (path, [CallUserHomeDir, LogPrintln [E err]])
      \<and> (\<not> (releaseLabel fl = [] \<and> readyForTest fl) \<longrightarrow>
           main env fl =
             (fst (loadToken env fl ''~/.gitlab''),
              [LogPrintln [S ''Starting the program...''], CallUserHomeDir, LogPrintln [E err],
               LogPrintf (''Token file path: %s'' @ newline) [S ''~/.gitlab'']]
              @ snd (loadToken env fl ''~/.gitlab''))
           \<and> CallReadFile ''~/.gitlab'' \<in> set (snd (main env fl))))
   \<and> (os_UserHomeDir env = Inr home \<longrightarrow>
      resolveHome env ''~/.gitlab'' = (home @ ''/.gitlab'', [CallUserHomeDir])
      \<and> (CHR ''~'' \<notin> set a \<longrightarrow>
           resolveHome env (a @ ''~'' @ b) = (a @ home @ b, [CallUserHomeDir]))
      \<and> (CHR ''~'' \<notin> set path \<longrightarrow> resolveHome env path = (path, [CallUserHomeDir])))"
  using loadToken_reads [of "''~/.gitlab''" env fl]
        Replace1_first [of "CHR ''~''" "[]" "''/.gitlab''" home]
        Replace1_first [of "CHR ''~''" a b home]
        Replace1_absent [of "CHR ''~''" path home]
  by (auto simp: resolveHome_def main_def split: prod.splits)

theorem resolveHome_failure_not_fatal_witness:
  "resolveHome envWithoutHome ''~/.gitlab''
     = (''~/.gitlab'', [CallUserHomeDir, LogPrintln [E (LibError ''$HOME is not defined'')]])
   \<and> CallReadFile ''~/.gitlab'' \<in> set (snd (main envWithoutHome exampleFlags))
   \<and> resolveHome exampleEnv ''~/.gitlab'' = (''/home/u/.gitlab'', [CallUserHomeDir])"
proof -
  have f: "os_UserHomeDir envWithoutHome = Inl (LibError ''$HOME is not defined'')"
    by (simp add: envWithoutHome_def exampleEnv_def)
  have nf: "\<not> (releaseLabel exampleFlags = [] \<and> readyForTest exampleFlags)"
    by (simp add: exampleFlags_def)
  have g: "os_UserHomeDir exampleEnv = Inr ''/home/u''"
    by (simp add: exampleEnv_def)
  have a: "''/home/u'' @ ''/.gitlab'' = ''/home/u/.gitlab''"
    by simp
  from resolveHome_failure_not_fatal
         [of envWithoutHome "LibError ''$HOME is not defined''" "''~/.gitlab''" exampleFlags]
       f nf
  have 1: "resolveHome envWithoutHome ''~/.gitlab''
             = (''~/.gitlab'', [CallUserHomeDir, LogPrintln [E (LibError ''$HOME is not defined'')]])
           \<and> CallReadFile ''~/.gitlab'' \<in> set (snd (main envWithoutHome exampleFlags))"
    by blast
  from resolveHome_failure_not_fatal [of exampleEnv _ _ _ "''/home/u''"] g
  have "resolveHome exampleEnv ''~/.gitlab'' = (''/home/u'' @ ''/.gitlab'', [CallUserHomeDir])"
    by blast
  with a have 2: "resolveHome exampleEnv ''~/.gitlab'' = (''/home/u/.gitlab'', [CallUserHomeDir])"
    by metis
  from 1 2 show ?thesis by blast
qed

subsection \<open>Reading the token\<close>

lemma spaces_encoding: "w \<in> set spaceEncodings \<Longrightarrow> spaces w"
  using spaces_Cons [OF _ spaces_Nil] by simp

lemma spaces_append: "spaces a \<Longrightarrow> spaces b \<Longrightarrow> spaces (a @ b)"
  by (induction rule: spaces.induct) (auto intro: spaces.intros)

lemma HasPrefix_split: "HasPrefix s w \<Longrightarrow> s = w @ drop (length w) s"
  by (metis HasPrefix_def append_take_drop_id)

lemma trimLeft_split: "\<exists>l. spaces l \<and> s = l @ trimLeft s"
proof (induction s rule: trimLeft.induct)
  case (1 s)
  show ?case
  proof (cases "leadingSpace s")
    case None
    then have "trimLeft s = s" by (simp add: trimLeft.simps)
    then show ?thesis using spaces_Nil by fastforce
  next
    case (Some w)
    then have t: "trimLeft s = trimLeft (drop (length w) s)"
      by (simp add: trimLeft.simps)
    from Some have w: "w \<in> set spaceEncodings" and s: "s = w @ drop (length w) s"
      using leadingSpace_Some HasPrefix_split by auto
    from "1.IH" [OF Some] obtain l where
      l: "spaces l" "drop (length w) s = l @ trimLeft (drop (length w) s)"
      by blast
    from w l(1) have "spaces (w @ l)" by (rule spaces_Cons)
    moreover from s l(2) t have "s = (w @ l) @ trimLeft s" by simp
    ultimately show ?thesis by blast
  qed
qed

lemma trimLeft_no_leadingSpace: "leadingSpace (trimLeft s) = None"
proof (induction s rule: trimLeft.induct)
  case (1 s)
  then show ?case
    by (cases "leadingSpace s") (simp_all add: trimLeft.simps [of s])
qed

lemma HasPrefix_rev_split:
  assumes "HasPrefix (rev s) (rev w)"
  shows "s = take (length s - length w) s @ w"
proof -
  from assms have "rev s = rev w @ drop (length w) (rev s)"
    using HasPrefix_split [of "rev s" "rev w"] by simp
  then have "s = rev (drop (length w) (rev s)) @ w"
    by (metis rev_append rev_rev_ident)
  then show ?thesis by (simp add: rev_drop)
qed

lemma trimRight_split: "\<exists>r. spaces r \<and> s = trimRight s @ r"
proof (induction s rule: trimRight.induct)
  case (1 s)
  show ?case
  proof (cases "trailingSpace s")
    case None
    then have "trimRight s = s" by (simp add: trimRight.simps)
    then show ?thesis using spaces_Nil by fastforce
  next
    case (Some w)
    let ?s' = "take (length s - length w) s"
    from Some have t: "trimRight s = trimRight ?s'"
      by (simp add: trimRight.simps)
    from Some have w: "w \<in> set spaceEncodings" and s: "s = ?s' @ w"
      using trailingSpace_Some HasPrefix_rev_split by auto
    from "1.IH" [OF Some] obtain r where
      r: "spaces r" "?s' = trimRight ?s' @ r"
      by blast
    from r(1) w have "spaces (r @ w)" by (simp add: spaces_append spaces_encoding)
    moreover from s r(2) t have "s = trimRight s @ (r @ w)" by (metis append.assoc)
    ultimately show ?thesis by blast
  qed
qed

lemma trimRight_no_trailingSpace: "trailingSpace (trimRight s) = None"
proof (induction s rule: trimRight.induct)
  case (1 s)
  then show ?case
    by (cases "trailingSpace s") (simp_all add: trimRight.simps [of s])
qed

lemma HasPrefix_appendI: "HasPrefix t w \<Longrightarrow> HasPrefix (t @ r) w"
  by (metis HasPrefix_def HasPrefix_split append.assoc append_eq_conv_conj)

lemma trimRight_keeps_no_leadingSpace:
  assumes "leadingSpace u = None"
  shows "leadingSpace (trimRight u) = None"
proof -
  obtain r where r: "u = trimRight u @ r"
    using trimRight_split by blast
  from assms have "\<forall>w \<in> set spaceEncodings. \<not> HasPrefix u w"
    by (simp add: leadingSpace_def find_None_iff)
  with r have "\<forall>w \<in> set spaceEncodings. \<not> HasPrefix (trimRight u) w"
    using HasPrefix_appendI by metis
  then show ?thesis by (simp add: leadingSpace_def find_None_iff)
qed

lemma TrimSpace_split: "\<exists>l r. spaces l \<and> spaces r \<and> s = l @ TrimSpace s @ r"
proof -
  obtain l where l: "spaces l" "s = l @ trimLeft s"
    using trimLeft_split by blast
  obtain r where r: "spaces r" "trimLeft s = trimRight (trimLeft s) @ r"
    using trimRight_split by blast
  from l(2) r(2) have "s = l @ TrimSpace s @ r" by (simp add: TrimSpace_def)
  with l(1) r(1) show ?thesis by blast
qed

lemma TrimSpace_trimmed:
  "leadingSpace (TrimSpace s) = None \<and> trailingSpace (TrimSpace s) = None"
  by (simp add: TrimSpace_def trimRight_no_trailingSpace trimRight_keeps_no_leadingSpace
        trimLeft_no_leadingSpace)

lemma TrimPrefix_present: "TrimPrefix (pre @ rest) pre = rest"
  by (simp add: TrimPrefix_def HasPrefix_def)

lemma TrimPrefix_absent: "\<not> HasPrefix t pre \<Longrightarrow> TrimPrefix t pre = t"
  by (simp add: TrimPrefix_def)

lemma token_example:
  "TrimPrefix (TrimSpace ('' token:abc123'' @ newline)) ''token:'' = ''abc123''"
  by code_simp

lemma listIssues_client:
  assumes "listIssues env fl git projectPath = (r, evs)" and "CallNewClient tok \<in> set evs"
  shows "tok = git"
  using assms
  by (auto simp: listIssues_def createReport_def writeReport_def deferred_def Let_def
           split: option.splits sum.splits prod.splits if_splits dest: writeRows_events)

lemma loadToken_client:
  assumes "os_ReadFile env tokenFile = Inr content"
    and "CallNewClient tok \<in> set (snd (loadToken env fl tokenFile))"
  shows "tok = TrimPrefix (TrimSpace content) ''token:''"
  using assms
  by (auto simp: loadToken_def readGitLabTokenFromFile_def Let_def
           split: option.splits sum.splits prod.splits
           dest: listIssues_client extractProjectPath_logs_only)

text \<open>
  C5. Token loading is \<open>readGitLabTokenFromFile\<close> followed by the \<open>strings.TrimPrefix\<close> of
  line 72. When the token file can be read, \<open>readGitLabTokenFromFile\<close> returns its contents
  without the white space at both ends: the contents are white space, the result, white
  space, and the result neither starts nor ends with white space. Then one literal
  \<open>token:\<close> at the start is removed if there is one, and a token that does not start with
  \<open>token:\<close> is left as it is. The contents \<open> token:abc123\<close> followed by a line feed give
  the token \<open>abc123\<close>. The token so obtained is the one the client is made from.
\<close>

theorem token_loading:
  assumes "os_ReadFile env tokenFile = Inr content"
  shows "readGitLabTokenFromFile env tokenFile
           = ((TrimSpace content, None), [CallReadFile tokenFile])
         \<and> (\<exists>l r. spaces l \<and> spaces r \<and> content = l @ TrimSpace content @ r)
         \<and> leadingSpace (TrimSpace content) = None
         \<and> trailingSpace (TrimSpace content) = None
         \<and> TrimPrefix (''token:'' @ rest) ''token:'' = rest
         \<and> (\<not> HasPrefix t ''token:'' \<longrightarrow> TrimPrefix t ''token:'' = t)
         \<and> (content = '' token:abc123'' @ newline \<longrightarrow>
              TrimPrefix (TrimSpace content) ''token:'' = ''abc123'')
         \<and> (CallNewClient tok \<in> set (snd (loadToken env fl tokenFile)) \<longrightarrow>
              tok = TrimPrefix (TrimSpace content) ''token:'')"
proof -
  from assms have 1: "readGitLabTokenFromFile env tokenFile
      = ((TrimSpace content, None), [CallReadFile tokenFile])"
    by (simp add: readGitLabTokenFromFile_def)
  have 2: "TrimPrefix (''token:'' @ rest) ''token:'' = rest"
    by (rule TrimPrefix_present)
  have 3: "content = '' token:abc123'' @ newline \<longrightarrow>
      TrimPrefix (TrimSpace content) ''token:'' = ''abc123''"
    using token_example by blast
  from 1 2 3 TrimSpace_split [of content] TrimSpace_trimmed [of content]
    TrimPrefix_absent [of t "''token:''"] loadToken_client [OF assms, of tok fl]
  show ?thesis by blast
qed

theorem token_loading_witness:
  "os_ReadFile exampleEnv ''/home/u/.gitlab'' = Inr ('' token:abc123'' @ newline)
   \<and> CallNewClient ''abc123'' \<in> set (snd (loadToken exampleEnv exampleFlags ''/home/u/.gitlab''))
   \<and> TrimPrefix (TrimSpace ('' token:abc123'' @ newline)) ''token:'' = ''abc123''"
proof -
  have f: "os_ReadFile exampleEnv ''/home/u/.gitlab'' = Inr ('' token:abc123'' @ newline)"
    by (simp add: exampleEnv_def)
  have c: "CallNewClient ''abc123'' \<in> set (snd (loadToken exampleEnv exampleFlags ''/home/u/.gitlab''))"
    by code_simp
  from token_loading [OF f, of _ _ "''abc123''" exampleFlags] f c show ?thesis
    by blast
qed

subsection \<open>Times as text\<close>



















subsection \<open>The report\<close>


text \<open>One turn of the loop: what it hands to the writer, and how the loop goes on.\<close>

lemma writeRows_Cons:
  assumes "writeRows env git projectPath k (issue # issues) = (r, evs)"
  shows "(written evs = [] \<and> r \<noteq> Return)
         \<or> (\<exists>d a t rest.
               Issues_GetIssue env k git projectPath (IID issue) = Inr d
               \<and> Author d = Some a \<and> CreatedAt d = Some t
               \<and> written evs =
                    [''[#'' @ Itoa (IID issue) @ '']('' @ WebURL d @ '')'', Title d,
                     (case Assignee issue of None \<Rightarrow> ''Unassigned'' | Some x \<Rightarrow> Name x),
                     Username a, Format t ''2006-01-02 15:04:05''] # rest
               \<and> ((rest = [] \<and> r = Exit1)
                    \<or> (\<exists>evs'. writeRows env git projectPath (Suc k) issues = (r, evs')
                               \<and> rest = written evs')))"
  using assms
  by (auto simp: Let_def split: sum.splits option.splits prod.splits)

lemma writeRows_rows:
  assumes "writeRows env git projectPath k issues = (r, evs)" and "i < length (written evs)"
  shows "i < length issues \<and>
         (\<exists>d a t.
            Issues_GetIssue env (k + i) git projectPath (IID (issues ! i)) = Inr d
            \<and> Author d = Some a \<and> CreatedAt d = Some t
            \<and> written evs ! i =
                 [''[#'' @ Itoa (IID (issues ! i)) @ '']('' @ WebURL d @ '')'', Title d,
                  (case Assignee (issues ! i) of None \<Rightarrow> ''Unassigned'' | Some x \<Rightarrow> Name x),
                  Username a, Format t ''2006-01-02 15:04:05''])"
  using assms
proof (induction issues arbitrary: k r evs i)
  case Nil
  then show ?case by simp
next
  case (Cons issue issues)
  from writeRows_Cons [OF Cons.prems(1)] Cons.prems(2)
  obtain d a t rest where
    d: "Issues_GetIssue env k git projectPath (IID issue) = Inr d"
       "Author d = Some a" "CreatedAt d = Some t"
    and w: "written evs =
              [''[#'' @ Itoa (IID issue) @ '']('' @ WebURL d @ '')'', Title d,
               (case Assignee issue of None \<Rightarrow> ''Unassigned'' | Some x \<Rightarrow> Name x),
               Username a, Format t ''2006-01-02 15:04:05''] # rest"
    and rest: "(rest = [] \<and> r = Exit1)
               \<or> (\<exists>evs'. writeRows env git projectPath (Suc k) issues = (r, evs')
                          \<and> rest = written evs')"
    by auto
  show ?case
  proof (cases i)
    case 0
    with d w show ?thesis by simp
  next
    case (Suc j)
    with Cons.prems(2) w have j: "j < length rest" by simp
    with rest obtain evs' where
      evs': "writeRows env git projectPath (Suc k) issues = (r, evs')" "rest = written evs'"
      by auto
    from Cons.IH [OF evs'(1)] j evs'(2) Suc w show ?thesis by simp
  qed
qed




text \<open>
  The deferred calls: a run that opened the output file ends with \<open>writer.Flush()\<close> and
  \<open>outputFile.Close()\<close> when \<open>main\<close> returns or panics, and makes neither call when it
  ends in \<open>log.Fatalf\<close>.
\<close>

lemma createReport_deferred:
  assumes "createReport env git projectPath issues = (r, evs)"
  shows "(r \<noteq> Exit1 \<longrightarrow> (\<exists>evs'. evs = evs' @ [CallFlush, CallClose]))
         \<and> (r = Exit1 \<longrightarrow> CallFlush \<notin> set evs \<and> CallClose \<notin> set evs)"
  using assms
  by (auto simp: createReport_def writeReport_def deferred_def Let_def
           split: option.splits prod.splits if_splits dest: writeRows_events)









text \<open>
  C9. Every row that the loop hands to the writer takes the assignee and the number in the
  link from the record of the list call, and the title, the author, the creation time and
  the URL of the link from the detail record fetched for that issue. An issue without an
  assignee in the list is reported as \<open>Unassigned\<close>, whatever assignee its detail record
  has.
\<close>

theorem row_sources:
  assumes "writeRows env git projectPath 0 issues = (r, evs)" and "k < length (written evs)"
  shows "k < length issues
         \<and> (\<exists>d a t.
              Issues_GetIssue env k git projectPath (IID (issues ! k)) = Inr d
              \<and> Author d = Some a \<and> CreatedAt d = Some t
              \<and> written evs ! k =
                   [''[#'' @ Itoa (IID (issues ! k)) @ '']('' @ WebURL d @ '')'', Title d,
                    (case Assignee (issues ! k) of None \<Rightarrow> ''Unassigned'' | Some x \<Rightarrow> Name x),
                    Username a, Format t ''2006-01-02 15:04:05''])
         \<and> (Assignee (issues ! k) = None \<longrightarrow> written evs ! k ! 2 = ''Unassigned'')
         \<and> (\<forall>x. Assignee (issues ! k) = Some x \<longrightarrow> written evs ! k ! 2 = Name x)"
proof -
  from writeRows_rows [OF assms] obtain d a t where
    k: "k < length issues"
    and d: "Issues_GetIssue env k git projectPath (IID (issues ! k)) = Inr d"
       "Author d = Some a" "CreatedAt d = Some t"
    and row: "written evs ! k =
        [''[#'' @ Itoa (IID (issues ! k)) @ '']('' @ WebURL d @ '')'', Title d,
         (case Assignee (issues ! k) of None \<Rightarrow> ''Unassigned'' | Some x \<Rightarrow> Name x),
         Username a, Format t ''2006-01-02 15:04:05'']"
    by auto
  from row have "written evs ! k ! 2 =
      (case Assignee (issues ! k) of None \<Rightarrow> ''Unassigned'' | Some x \<Rightarrow> Name x)"
    by simp
  then have u: "Assignee (issues ! k) = None \<longrightarrow> written evs ! k ! 2 = ''Unassigned''"
    and n: "\<forall>x. Assignee (issues ! k) = Some x \<longrightarrow> written evs ! k ! 2 = Name x"
    by simp_all
  from k d row u n show ?thesis by blast
qed

theorem row_sources_witness:
  "1 < length (written (snd (writeRows exampleEnv ''abc123'' ''f5/volterra/support/technical'' 0
         exampleIssues)))
   \<and> Assignee (exampleIssues ! 1) = None
   \<and> Issues_GetIssue exampleEnv 1 ''abc123'' ''f5/volterra/support/technical''
         (IID (exampleIssues ! 1)) = Inr (exampleDetail 42)
   \<and> Assignee (exampleDetail 42) = Some \<lparr>Name = ''Bob''\<rparr>
   \<and> written (snd (writeRows exampleEnv ''abc123'' ''f5/volterra/support/technical'' 0
         exampleIssues)) ! 1 ! 2 = ''Unassigned''"
proof -
  have h: "writeRows exampleEnv ''abc123'' ''f5/volterra/support/technical'' 0 exampleIssues
      = (fst (writeRows exampleEnv ''abc123'' ''f5/volterra/support/technical'' 0 exampleIssues),
         snd (writeRows exampleEnv ''abc123'' ''f5/volterra/support/technical'' 0 exampleIssues))"
    by simp
  have l: "1 < length (written (snd (writeRows exampleEnv ''abc123''
      ''f5/volterra/support/technical'' 0 exampleIssues)))"
    by code_simp
  have a: "Assignee (exampleIssues ! 1) = None"
    by code_simp
  have g: "Issues_GetIssue exampleEnv 1 ''abc123'' ''f5/volterra/support/technical''
      (IID (exampleIssues ! 1)) = Inr (exampleDetail 42)"
    by code_simp
  have b: "Assignee (exampleDetail 42) = Some \<lparr>Name = ''Bob''\<rparr>"
    by code_simp
  from row_sources [OF h l] l a g b show ?thesis by blast
qed




text \<open>
  C7. The spec asks that the output file be flushed and closed on every exit path. That holds
  when \<open>main\<close> returns or panics (\<open>createReport_deferred\<close>), and fails on the exits through
  \<open>log.Fatalf\<close> after the file was opened. In the run below the detail fetch of the second
  issue fails: the file has been created, the header and the row of the first issue have
  been handed to the writer, and the process exits with status 1 without a call of
  \<open>writer.Flush\<close> or \<open>outputFile.Close\<close>.
\<close>

theorem fatal_exit_skips_deferred_calls:
  "fst (main envDetailFails exampleFlags) = Exit1
   \<and> CallCreate ''issues_output_2024-03-26_09-05-07.csv''
       \<in> set (snd (main envDetailFails exampleFlags))
   \<and> written (snd (main envDetailFails exampleFlags))
       = [header,
          [''[#41](https://gitlab.com/p/-/issues/41)'', ''Upgrade fails'', ''Alice'', ''carol'',
           ''2024-03-26 09:05:07'']]
   \<and> CallFlush \<notin> set (snd (main envDetailFails exampleFlags))
   \<and> CallClose \<notin> set (snd (main envDetailFails exampleFlags))"
  by code_simp

end
